theory Spec2Isabelle
  imports Complex_Main "HOL-Library.AList" "HOL-Library.Multiset"
begin

section \<open>JavaScript values\<close>

text \<open>
  The module \<^verbatim>\<open>src/lib/parsePackage.js\<close> exists in two variants, called A (the first,
  built on \<^verbatim>\<open>request\<close>) and B (the second, built on \<^verbatim>\<open>request-promise\<close>) below.
  Strings are lists of \<^typ>\<open>char\<close>; code units above \<^verbatim>\<open>0xFF\<close> are outside this model.
\<close>

text \<open>
  An error object: the name of its constructor and its message. \<^verbatim>\<open>`${err}`\<close> calls
  \<^verbatim>\<open>Error.prototype.toString\<close>.
\<close>

datatype jserror = JSError string string

definition err_toString :: "jserror \<Rightarrow> string" where
  "err_toString e =
     (case e of JSError nm msg \<Rightarrow>
        if nm = [] then msg else if msg = [] then nm else nm @ '': '' @ msg)"

text \<open>
  A promise, once settled: the tick at which it settles, and its rejection reason
  (\<open>Inl\<close>) or its value (\<open>Inr\<close>).
\<close>

type_synonym 'a promise = "nat \<times> (jserror + 'a)"

section \<open>The URL builder\<close>

text \<open>\<^verbatim>\<open>packageParser.depURL = pkg => `https://www.npmjs.com/package/${pkg}`\<close> (both variants).\<close>

definition depURL :: "string \<Rightarrow> string" where
  "depURL pkg = ''https://www.npmjs.com/package/'' @ pkg"

section \<open>Objects and \<^verbatim>\<open>Object.keys\<close>\<close>

text \<open>
  An ordinary object (prototype \<^verbatim>\<open>Object.prototype\<close>, to which nothing has been added) is
  the list of its own data properties in creation order; the values this module stores
  (strings, \<^verbatim>\<open>true\<close>) are neither objects nor functions.

  \<^verbatim>\<open>Object.keys\<close> lists the own keys that are array indices first, in ascending numeric
  order, and then the other keys in creation order. An array index is the canonical
  decimal string of an integer below \<open>2\<^sup>3\<^sup>2 - 1\<close>.
\<close>

definition is_digit :: "char \<Rightarrow> bool" where
  "is_digit c = (48 \<le> (of_char c :: nat) \<and> (of_char c :: nat) \<le> 57)"

definition index_value :: "string \<Rightarrow> nat" where
  "index_value s = fold (\<lambda>c n. 10 * n + (of_char c - 48)) s 0"

definition is_array_index :: "string \<Rightarrow> bool" where
  "is_array_index s =
     (case s of
        [] \<Rightarrow> False
      | c # cs \<Rightarrow> list_all is_digit s \<and> (cs = [] \<or> c \<noteq> CHR ''0'') \<and> index_value s < 4294967295)"

definition own_keys :: "(string \<times> 'v) list \<Rightarrow> string list" where
  "own_keys obj =
     (let ks = map fst obj
      in sort_key index_value (filter is_array_index ks) @ filter (\<lambda>k. \<not> is_array_index k) ks)"

text \<open>
  The assignment \<^verbatim>\<open>obj[k] = v\<close>. An own property keeps its place and takes the new value;
  a new key is added last. For the key \<^verbatim>\<open>__proto__\<close> that is not an own property the
  assignment reaches the accessor of \<^verbatim>\<open>Object.prototype\<close>, whose setter ignores a value
  that is not an object: nothing is stored.
\<close>

definition js_set :: "(string \<times> 'v) list \<Rightarrow> string \<Rightarrow> 'v \<Rightarrow> (string \<times> 'v) list" where
  "js_set obj k v =
     (if k = ''__proto__'' \<and> k \<notin> fst ` set obj then obj else AList.update k v obj)"

text \<open>
  The call \<^verbatim>\<open>obj.hasOwnProperty(k)\<close> first reads the property \<^verbatim>\<open>hasOwnProperty\<close> of
  \<open>obj\<close>. An own property of that name shadows the method of \<^verbatim>\<open>Object.prototype\<close>,
  and calling its value (not a function) throws a \<^verbatim>\<open>TypeError\<close>. \<open>recv\<close> is the
  receiver as the source writes it, for the message.
\<close>

definition call_hasOwnProperty :: "string \<Rightarrow> (string \<times> 'v) list \<Rightarrow> string \<Rightarrow> jserror + bool" where
  "call_hasOwnProperty recv obj k =
     (if ''hasOwnProperty'' \<in> fst ` set obj
      then Inl (JSError ''TypeError'' (recv @ ''.hasOwnProperty is not a function''))
      else Inr (k \<in> fst ` set obj))"

section \<open>Parsed JSON\<close>

text \<open>
  The value \<^verbatim>\<open>JSON.parse\<close> returns. \<open>JObj\<close> holds the members in the order of the text;
  \<^verbatim>\<open>JSON.parse\<close> defines one own property per member, a repeated name overwriting the
  value of the earlier one in its place (\<open>create_object\<close>). The payload of a number is not
  read by this module.
\<close>

datatype json = JNull | JBool bool | JNum real | JStr string | JArr "json list"
  | JObj "(string \<times> json) list"

definition create_object :: "(string \<times> 'v) list \<Rightarrow> (string \<times> 'v) list" where
  "create_object members = fold (\<lambda>(k, v) obj. AList.update k v obj) members []"

text \<open>
  The property reads \<^verbatim>\<open>pj.dependencies\<close> and \<^verbatim>\<open>pj.devDependencies\<close>: a \<^verbatim>\<open>TypeError\<close> on
  \<^verbatim>\<open>null\<close>, the own property of an object, and \<^verbatim>\<open>undefined\<close> (\<open>None\<close>) otherwise. No
  prototype defines a property of either name.
\<close>

definition get_member :: "json \<Rightarrow> string \<Rightarrow> jserror + json option" where
  "get_member v k =
     (case v of
        JNull \<Rightarrow> Inl (JSError ''TypeError'' (''Cannot read property '' @ [CHR 0x27] @ k @ [CHR 0x27] @ '' of null''))
      | JObj members \<Rightarrow> Inr (map_of (create_object members) k)
      | _ \<Rightarrow> Inr None)"

text \<open>The decimal string of an index, as \<^verbatim>\<open>ToString\<close> writes it; \<open>digit_char\<close> is only applied below ten.\<close>

definition digit_char :: "nat \<Rightarrow> char" where
  "digit_char d = ''0123456789'' ! d"

fun decimal_string :: "nat \<Rightarrow> string" where
  "decimal_string i =
     (if 10 \<le> i then decimal_string (i div 10) @ [digit_char (i mod 10)] else [digit_char i])"

text \<open>
  \<^verbatim>\<open>Object.keys(x)\<close>: a \<^verbatim>\<open>TypeError\<close> on \<^verbatim>\<open>undefined\<close> and \<^verbatim>\<open>null\<close>, no key for a boolean or
  a number, the indices of a string or an array.
\<close>

definition Object_keys :: "json option \<Rightarrow> jserror + string list" where
  "Object_keys x =
     (case x of
        None \<Rightarrow> Inl (JSError ''TypeError'' ''Cannot convert undefined or null to object'')
      | Some JNull \<Rightarrow> Inl (JSError ''TypeError'' ''Cannot convert undefined or null to object'')
      | Some (JBool b) \<Rightarrow> Inr []
      | Some (JNum n) \<Rightarrow> Inr []
      | Some (JStr s) \<Rightarrow> Inr (map decimal_string [0..<length s])
      | Some (JArr xs) \<Rightarrow> Inr (map decimal_string [0..<length xs])
      | Some (JObj members) \<Rightarrow> Inr (own_keys (create_object members)))"

text \<open>Whether a parsed value is an object with an own property \<open>k\<close>.\<close>

definition has_member :: "json \<Rightarrow> string \<Rightarrow> bool" where
  "has_member v k = (case v of JObj members \<Rightarrow> k \<in> fst ` set members | _ \<Rightarrow> False)"

section \<open>The world outside the module\<close>

text \<open>
  What the module imports and calls: the file system, \<^verbatim>\<open>JSON.parse\<close>, the HTTP client and
  cheerio. The Docker endpoint's format is the one the source documents: a sequence
  \<^verbatim>\<open>results\<close> of entries with a string \<^verbatim>\<open>name\<close> and a string \<^verbatim>\<open>description\<close>;
  \<open>JSON_parse_docker\<close> is \<^verbatim>\<open>JSON.parse\<close> on a body of that format. \<open>cheerio_select\<close> gives,
  for an HTML text, the text contents of the elements that
  \<^verbatim>\<open>$('.sidebar>p.list-of-links:first-of-type')\<close> selects, in document order.
\<close>

record docker_entry =
  name :: string
  description :: string

record docker_json =
  results :: "docker_entry list"

record world =
  readFileSync :: "string \<Rightarrow> jserror + string"
  JSON_parse :: "string \<Rightarrow> jserror + json"
  JSON_parse_docker :: "string \<Rightarrow> jserror + docker_json"
  request :: "string \<Rightarrow> string promise"
  cheerio_select :: "string \<Rightarrow> string list"

section \<open>The manifest reader\<close>

text \<open>
  \<^verbatim>\<open>const pj = JSON.parse(fs.readFileSync(path_to_pkg, 'utf8'));\<close>
  \<^verbatim>\<open>return Object.keys(pj.dependencies).concat(Object.keys(pj.devDependencies));\<close>
  (both variants).
\<close>

definition dependencies :: "world \<Rightarrow> string \<Rightarrow> jserror + string list" where
  "dependencies w path_to_pkg =
     (case readFileSync w path_to_pkg of
        Inl e \<Rightarrow> Inl e
      | Inr content \<Rightarrow>
     (case JSON_parse w content of
        Inl e \<Rightarrow> Inl e
      | Inr pj \<Rightarrow>
     (case get_member pj ''dependencies'' of
        Inl e \<Rightarrow> Inl e
      | Inr deps \<Rightarrow>
     (case Object_keys deps of
        Inl e \<Rightarrow> Inl e
      | Inr ks \<Rightarrow>
     (case get_member pj ''devDependencies'' of
        Inl e \<Rightarrow> Inl e
      | Inr devDeps \<Rightarrow>
     (case Object_keys devDeps of
        Inl e \<Rightarrow> Inl e
      | Inr devKs \<Rightarrow> Inr (ks @ devKs)))))))"

section \<open>The page scraper\<close>

text \<open>
  The character classes of a regular expression without flags \<^verbatim>\<open>u\<close> and \<^verbatim>\<open>s\<close>: \<^verbatim>\<open>\s\<close> is
  white space and line terminators, \<^verbatim>\<open>.\<close> is every character but a line terminator.
\<close>

definition is_space :: "char \<Rightarrow> bool" where
  "is_space c =
     (c \<in> set [CHR 0x09, CHR 0x0A, CHR 0x0B, CHR 0x0C, CHR 0x0D, CHR 0x20, CHR 0xA0])"

definition is_line_terminator :: "char \<Rightarrow> bool" where
  "is_line_terminator c = (c = CHR 0x0A \<or> c = CHR 0x0D)"

text \<open>
  A regular expression that is a sequence of single characters of a class (\<open>One\<close>),
  greedy stars of a class (\<open>Many\<close>) and the two ends of a capture group (\<open>Mark\<close>).
  \<open>rx_match\<close> is the backtracking matcher at the start of the input: a star first takes
  one more character and gives it back when the rest then fails. The result is the
  input left at each mark and the input left after the match.
\<close>

datatype rx_atom = One "char \<Rightarrow> bool" | Many "char \<Rightarrow> bool" | Mark

fun rx_match :: "rx_atom list \<Rightarrow> string \<Rightarrow> (string list \<times> string) option" where
  "rx_match [] s = Some ([], s)"
| "rx_match (Mark # r) s = map_option (\<lambda>(ms, rest). (s # ms, rest)) (rx_match r s)"
| "rx_match (One p # r) [] = None"
| "rx_match (One p # r) (c # cs) = (if p c then rx_match r cs else None)"
| "rx_match (Many p # r) [] = rx_match r []"
| "rx_match (Many p # r) (c # cs) =
     (if p c
      then (case rx_match (Many p # r) cs of Some m \<Rightarrow> Some m | None \<Rightarrow> rx_match r (c # cs))
      else rx_match r (c # cs))"

text \<open>The text of the first capture group: what lies between the first two marks.\<close>

definition capture1 :: "string list \<Rightarrow> string" where
  "capture1 ms = (case ms of a # b # _ \<Rightarrow> take (length a - length b) a | _ \<Rightarrow> [])"

text \<open>
  \<^verbatim>\<open>s.replace(rx, '$1')\<close> for a regular expression with the flag \<^verbatim>\<open>g\<close>: every match, found
  from left to right, is replaced by its first capture group and the text between the
  matches is kept. After an empty match the search moves on by one character.
\<close>

fun replace_g :: "rx_atom list \<Rightarrow> string \<Rightarrow> string" where
  "replace_g rx s =
     (case rx_match rx s of
        Some (ms, rest) \<Rightarrow>
          (if length rest < length s then capture1 ms @ replace_g rx rest
           else (case s of [] \<Rightarrow> capture1 ms | c # cs \<Rightarrow> capture1 ms @ c # replace_g rx cs))
      | None \<Rightarrow> (case s of [] \<Rightarrow> [] | c # cs \<Rightarrow> c # replace_g rx cs))"

text \<open>The expression \<^verbatim>\<open>/\s*(\S.*\S)\s*/g\<close> of \<^verbatim>\<open>parseDependencies\<close>.\<close>

definition trim_rx :: "rx_atom list" where
  "trim_rx =
     [Many is_space, Mark, One (\<lambda>c. \<not> is_space c), Many (\<lambda>c. \<not> is_line_terminator c),
      One (\<lambda>c. \<not> is_space c), Mark, Many is_space]"

text \<open>\<^verbatim>\<open>s.split(sep)\<close> for a separator of one character; the empty string gives \<^verbatim>\<open>['']\<close>.\<close>

fun split_on :: "char \<Rightarrow> string \<Rightarrow> string list" where
  "split_on sep [] = [[]]"
| "split_on sep (c # cs) =
     (if c = sep then [] # split_on sep cs
      else (case split_on sep cs of t # ts \<Rightarrow> (c # t) # ts | [] \<Rightarrow> [[c]]))"

text \<open>
  \<^verbatim>\<open>let deps = $('.sidebar>p.list-of-links:first-of-type').text().split(',');\<close>
  \<^verbatim>\<open>return deps.map((el) => el.replace(/\s*(\S.*\S)\s*/g, '$1'));\<close>
  (both variants). \<^verbatim>\<open>.text()\<close> is the concatenation of the texts of the selected elements,
  the empty string when none is selected. \<open>split_trim\<close> is the part after \<^verbatim>\<open>.text()\<close>.
\<close>

definition split_trim :: "string \<Rightarrow> string list" where
  "split_trim txt = map (replace_g trim_rx) (split_on CHR '','' txt)"

definition parseDependencies :: "world \<Rightarrow> string \<Rightarrow> string list" where
  "parseDependencies w html = split_trim (concat (cheerio_select w html))"

text \<open>
  Variant B: \<^verbatim>\<open>const npmPage = await request(depURL); return this.parseDependencies(npmPage);\<close>
\<close>

definition fetchNPM_B :: "world \<Rightarrow> string \<Rightarrow> string list promise" where
  "fetchNPM_B w url =
     (case request w url of
        (t, Inl e) \<Rightarrow> (t, Inl e)
      | (t, Inr npmPage) \<Rightarrow> (t, Inr (parseDependencies w npmPage)))"

section \<open>The catalog\<close>

text \<open>
  \<^verbatim>\<open>let dj = JSON.parse(dockerJSON); let dockers = {};\<close>
  \<^verbatim>\<open>dj.results.forEach((el) => { dockers[el.name] = el.description; }); return dockers;\<close>
  (both variants).
\<close>

definition parseDockers :: "world \<Rightarrow> string \<Rightarrow> jserror + (string \<times> string) list" where
  "parseDockers w dockerJSON =
     (case JSON_parse_docker w dockerJSON of
        Inl e \<Rightarrow> Inl e
      | Inr dj \<Rightarrow> Inr (fold (\<lambda>el dockers. js_set dockers (name el) (description el)) (results dj) []))"

text \<open>
  Variant B: \<^verbatim>\<open>const dockerURL = url || '...?page_size=999';\<close>
  \<^verbatim>\<open>const dockers = await request(dockerURL); return this.parseDockers(dockers);\<close>
  The argument is \<open>None\<close> when the caller passes none; \<^verbatim>\<open>undefined\<close> and the empty string
  are the falsy ones.
\<close>

definition fetchDockers_B :: "world \<Rightarrow> string option \<Rightarrow> (string \<times> string) list promise" where
  "fetchDockers_B w url =
     (let dockerURL =
            (case url of
               None \<Rightarrow> ''https://hub.docker.com/v2/repositories/library/?page_size=999''
             | Some u \<Rightarrow>
                 if u = [] then ''https://hub.docker.com/v2/repositories/library/?page_size=999''
                 else u)
      in case request w dockerURL of
           (t, Inl e) \<Rightarrow> (t, Inl e)
         | (t, Inr dockers) \<Rightarrow> (t, parseDockers w dockers))"

section \<open>The matcher, variant B\<close>

text \<open>
  \<^verbatim>\<open>matchDependencies\<close> calls the other methods through \<^verbatim>\<open>this\<close>, so a test can put stubs
  in their place. \<open>parser\<close> holds the four methods it calls; \<open>packageParser_B\<close> is the
  object the module exports.
\<close>

record parser =
  this_dependencies :: "string \<Rightarrow> jserror + string list"
  this_depURL :: "string \<Rightarrow> string"
  this_fetchNPM :: "string \<Rightarrow> string list promise"
  this_fetchDockers :: "string option \<Rightarrow> (string \<times> string) list promise"

definition packageParser_B :: "world \<Rightarrow> parser" where
  "packageParser_B w =
     \<lparr>this_dependencies = dependencies w, this_depURL = depURL,
      this_fetchNPM = fetchNPM_B w, this_fetchDockers = fetchDockers_B w\<rparr>"

text \<open>The fetches a call starts, in the order it starts them.\<close>

datatype fetch_call = FetchDockers "string option" | FetchNPM string

text \<open>
  \<^verbatim>\<open>Promise.all\<close> rejects with the reason of the promise that is rejected first in time
  (of two rejected at the same tick, the one that stands first), and otherwise is
  fulfilled with the values in the order of the promises.
\<close>

fun earliest_rejection :: "'a promise list \<Rightarrow> (nat \<times> jserror) option" where
  "earliest_rejection [] = None"
| "earliest_rejection ((t, Inr v) # ps) = earliest_rejection ps"
| "earliest_rejection ((t, Inl e) # ps) =
     (case earliest_rejection ps of
        None \<Rightarrow> Some (t, e)
      | Some (t', e') \<Rightarrow> if t' < t then Some (t', e') else Some (t, e))"

fun fulfilled_values :: "'a promise list \<Rightarrow> 'a list" where
  "fulfilled_values [] = []"
| "fulfilled_values ((t, Inr v) # ps) = v # fulfilled_values ps"
| "fulfilled_values ((t, Inl e) # ps) = fulfilled_values ps"

text \<open>
  \<^verbatim>\<open>const [...fetchedData] = await Promise.all(fetchedPromises);\<close>
  \<^verbatim>\<open>const dockerKeywords = fetchedData.shift();\<close>
  The first promise of the array is the catalog's and the others are the pages'; the
  result is the first value and the list of the others.
\<close>

definition erase :: "'a promise \<Rightarrow> unit promise" where
  "erase p = (case p of (t, Inl e) \<Rightarrow> (t, Inl e) | (t, Inr v) \<Rightarrow> (t, Inr ()))"

definition Promise_all_shift :: "'a promise \<Rightarrow> 'b promise list \<Rightarrow> jserror + ('a \<times> 'b list)" where
  "Promise_all_shift p ps =
     (case earliest_rejection (erase p # map erase ps) of
        Some (t, e) \<Rightarrow> Inl e
      | None \<Rightarrow> (case snd p of Inl e \<Rightarrow> Inl e | Inr v \<Rightarrow> Inr (v, fulfilled_values ps)))"

text \<open>
  \<^verbatim>\<open>depKeywords.forEach(kw => {\<close>
  \<^verbatim>\<open>  if (!depList.hasOwnProperty(kw) && dockerKeywords.hasOwnProperty(kw)) { depList[kw] = true; }\<close>
  \<^verbatim>\<open>});\<close>
\<close>

fun forEach_kw ::
  "(string \<times> string) list \<Rightarrow> string list \<Rightarrow> (string \<times> bool) list \<Rightarrow> jserror + (string \<times> bool) list"
where
  "forEach_kw dockerKeywords [] depList = Inr depList"
| "forEach_kw dockerKeywords (kw # kws) depList =
     (case call_hasOwnProperty ''depList'' depList kw of
        Inl e \<Rightarrow> Inl e
      | Inr listed \<Rightarrow>
          if listed then forEach_kw dockerKeywords kws depList
          else (case call_hasOwnProperty ''dockerKeywords'' dockerKeywords kw of
                  Inl e \<Rightarrow> Inl e
                | Inr official \<Rightarrow>
                    forEach_kw dockerKeywords kws
                      (if official then js_set depList kw True else depList)))"

text \<open>
  \<^verbatim>\<open>matchDependencies\<close> of variant B. The result is the fetches started and the outcome of
  the promise the \<^verbatim>\<open>async\<close> function returns: its rejection reason or the array
  \<^verbatim>\<open>Object.keys(depList)\<close>.
\<close>

definition matchDependencies_B :: "parser \<Rightarrow> string \<Rightarrow> fetch_call list \<times> (jserror + string list)" where
  "matchDependencies_B this path_to_pkg =
     (case this_dependencies this path_to_pkg of
        Inl e \<Rightarrow> ([], Inl e)
      | Inr packageJSON \<Rightarrow>
          (let packageURLs = map (this_depURL this) packageJSON;
               dockerPromise = this_fetchDockers this None;
               npmPromises = map (this_fetchNPM this) packageURLs
           in (FetchDockers None # map FetchNPM packageURLs,
               case Promise_all_shift dockerPromise npmPromises of
                 Inl e \<Rightarrow> Inl e
               | Inr (dockerKeywords, fetchedData) \<Rightarrow>
                   (let depKeywords = fold (\<lambda>el accum. accum @ el) fetchedData []
                    in case forEach_kw dockerKeywords depKeywords [] of
                         Inl e \<Rightarrow> Inl e
                       | Inr depList \<Rightarrow> Inr (own_keys depList)))))"

section \<open>The matcher, variant A\<close>

text \<open>
  Variant A ends each \<^verbatim>\<open>catch\<close> with the same statement:
  \<^verbatim>\<open>catch(err) { throw new Error(`${ERR_URL_PARSE} ${err}`); }\<close>
\<close>

definition ERR_URL_PARSE :: string where
  "ERR_URL_PARSE = ''Couldn't load or parse data on this module from npmjs.com''"

definition rethrow :: "jserror \<Rightarrow> jserror" where
  "rethrow err = JSError ''Error'' (ERR_URL_PARSE @ '' '' @ err_toString err)"



text \<open>Reading a property of \<^verbatim>\<open>undefined\<close> throws a \<^verbatim>\<open>TypeError\<close>.\<close>

definition property_of_undefined :: "string \<Rightarrow> jserror" where
  "property_of_undefined k =
     JSError ''TypeError'' (''Cannot read property '' @ [CHR 0x27] @ k @ [CHR 0x27] @ '' of undefined'')"

text \<open>
  \<^verbatim>\<open>matchDependencies\<close> of variant A. The source declares it as
  \<^verbatim>\<open>async packageParser.matchDependencies = path_to_pkg => { ... }\<close>, which the language
  does not have; it is read as the asynchronous arrow function
  \<^verbatim>\<open>packageParser.matchDependencies = async path_to_pkg => { ... }\<close>. An arrow function has
  no \<^verbatim>\<open>this\<close> of its own: its \<^verbatim>\<open>this\<close> is the one of the module, which is \<^verbatim>\<open>undefined\<close>,
  whatever object the function is called on. The first statement of the body,
  \<^verbatim>\<open>const packageJSON = this.dependencies(path_to_pkg);\<close> (line 153), stands outside every
  \<^verbatim>\<open>try\<close> and reads a property of \<^verbatim>\<open>undefined\<close>: the promise is rejected with that
  \<^verbatim>\<open>TypeError\<close>, and no later statement runs. The result is the fetches started and the
  outcome of the promise, as for variant B.
\<close>

definition matchDependencies_A :: "string \<Rightarrow> fetch_call list \<times> (jserror + string list)" where
  "matchDependencies_A path_to_pkg = ([], Inl (property_of_undefined ''dependencies''))"

section \<open>Inputs of the examples\<close>

text \<open>
  A world with one manifest, \<^verbatim>\<open>package.json\<close>, that declares \<^verbatim>\<open>redis\<close> and \<^verbatim>\<open>mocha\<close>, a
  registry page for \<^verbatim>\<open>redis\<close> and a catalog of one image.
\<close>

definition fixture_world :: world where
  "fixture_world =
     \<lparr>readFileSync =
        (\<lambda>p. if p = ''package.json'' then Inr ''(manifest text)''
             else Inl (JSError ''Error'' ''ENOENT: no such file or directory'')),
      JSON_parse =
        (\<lambda>s. if s = ''(manifest text)''
             then Inr (JObj [(''dependencies'', JObj [(''redis'', JStr ''2.6.0'')]),
                             (''devDependencies'', JObj [(''mocha'', JStr ''2.4.5'')])])
             else Inl (JSError ''SyntaxError'' ''Unexpected token'')),
      JSON_parse_docker =
        (\<lambda>s. if s = ''(catalog text)''
             then Inr \<lparr>results = [\<lparr>name = ''redis'', description = ''Redis is a key-value store.''\<rparr>]\<rparr>
             else Inl (JSError ''SyntaxError'' ''Unexpected token'')),
      request =
        (\<lambda>u. if u = ''https://hub.docker.com/v2/repositories/library/?page_size=999''
             then (2, Inr ''(catalog text)'')
             else if u = ''https://www.npmjs.com/package/redis'' then (1, Inr ''(redis page)'')
             else (1, Inl (JSError ''StatusCodeError'' ''404 - Not Found''))),
      cheerio_select = (\<lambda>h. if h = ''(redis page)'' then [''redis, cache''] else [])\<rparr>"

text \<open>
  The stubs of the test suite: \<^verbatim>\<open>dependencies\<close> returns a fixed list, \<^verbatim>\<open>fetchDockers\<close> a
  promise fulfilled with a fixed catalog, and \<^verbatim>\<open>fetchNPM\<close> a promise fulfilled with a
  fixed keyword list.
\<close>

definition stub_parser :: "string list \<Rightarrow> (string \<times> string) list \<Rightarrow> string list \<Rightarrow> parser" where
  "stub_parser deps catalog keywords =
     \<lparr>this_dependencies = (\<lambda>p. Inr deps), this_depURL = depURL,
      this_fetchNPM = (\<lambda>u. (0, Inr keywords)), this_fetchDockers = (\<lambda>u. (0, Inr catalog))\<rparr>"

text \<open>A manifest that declares \<^verbatim>\<open>redis\<close> under \<^verbatim>\<open>dependencies\<close> and has no other key.\<close>

definition manifest_without_devDependencies :: json where
  "manifest_without_devDependencies = JObj [(''dependencies'', JObj [(''redis'', JStr ''2.6.0'')])]"

text \<open>
  A manifest whose \<^verbatim>\<open>dependencies\<close> declare \<^verbatim>\<open>q\<close> and then \<^verbatim>\<open>7\<close>, a name that is an array
  index.
\<close>

definition manifest_with_index_key :: json where
  "manifest_with_index_key =
     JObj [(''dependencies'', JObj [(''q'', JStr ''1.4.1''), (''7'', JStr ''1.0.0'')]),
           (''devDependencies'', JObj [(''mocha'', JStr ''2.4.5'')])]"

text \<open>A catalog body with an image named \<^verbatim>\<open>__proto__\<close> before the image \<^verbatim>\<open>nginx\<close>.\<close>

definition catalog_with_proto :: docker_json where
  "catalog_with_proto =
     \<lparr>results = [\<lparr>name = ''__proto__'', description = ''An image.''\<rparr>,
                 \<lparr>name = ''nginx'', description = ''Official build of Nginx.''\<rparr>]\<rparr>"

section \<open>Auxiliary facts\<close>

lemma fold_update_keys:
  "fst ` set (fold (\<lambda>(k, v) obj. AList.update k v obj) ms acc) = fst ` set ms \<union> fst ` set acc"
proof (induction ms arbitrary: acc)
  case Nil
  show ?case by simp
next
  case (Cons m ms)
  obtain k v where m: "m = (k, v)" by (cases m)
  show ?case
    by (simp add: m Cons.IH AList.dom_update Un_assoc)
qed

lemma create_object_keys: "fst ` set (create_object ms) = fst ` set ms"
  by (simp add: create_object_def fold_update_keys)

lemma get_member_absent:
  "\<not> has_member pj k \<Longrightarrow> pj \<noteq> JNull \<Longrightarrow> get_member pj k = Inr None"
  by (cases pj) (auto simp: get_member_def has_member_def create_object_keys map_of_eq_None_iff)

lemma get_member_error:
  "get_member pj k = Inl e \<Longrightarrow> \<exists>msg. e = JSError ''TypeError'' msg"
  by (cases pj) (auto simp: get_member_def)

lemma Object_keys_error:
  "Object_keys x = Inl e \<Longrightarrow> \<exists>msg. e = JSError ''TypeError'' msg"
  by (auto simp: Object_keys_def split: option.splits json.splits)

lemma dependencies_missing_devDependencies:
  assumes "readFileSync w path = Inr content" and "JSON_parse w content = Inr pj"
    and "\<not> has_member pj ''devDependencies''"
  shows "\<exists>msg. dependencies w path = Inl (JSError ''TypeError'' msg)"
proof (cases "get_member pj ''dependencies''")
  case (Inl e)
  with assms show ?thesis
    by (auto simp: dependencies_def dest: get_member_error)
next
  case (Inr d)
  then have nn: "pj \<noteq> JNull" by (auto simp: get_member_def)
  have dev: "get_member pj ''devDependencies'' = Inr None"
    using assms(3) nn by (rule get_member_absent)
  show ?thesis
  proof (cases "Object_keys d")
    case (Inl e)
    with assms Inr show ?thesis
      by (auto simp: dependencies_def dest: Object_keys_error)
  next
    case (Inr ks)
    with assms \<open>get_member pj ''dependencies'' = Inr d\<close> dev show ?thesis
      by (simp add: dependencies_def Object_keys_def)
  qed
qed


lemma mset_own_keys: "mset (own_keys obj) = mset (map fst obj)"
proof -
  have "mset (filter is_array_index ks) + mset (filter (\<lambda>k. \<not> is_array_index k) ks) = mset ks"
    for ks :: "string list"
    by (induction ks) simp_all
  then show ?thesis
    by (simp add: own_keys_def Let_def)
qed

lemma set_own_keys: "set (own_keys obj) = fst ` set obj"
  using mset_own_keys [of obj] by (metis set_map set_mset_mset)

lemma distinct_own_keys: "distinct (own_keys obj) = distinct (map fst obj)"
  using mset_own_keys [of obj] by (rule mset_eq_imp_distinct_iff)

lemma own_keys_no_index:
  "list_all (\<lambda>k. \<not> is_array_index k) (map fst obj) \<Longrightarrow> own_keys obj = map fst obj"
  by (simp add: own_keys_def list_all_iff filter_id_conv filter_empty_conv)

lemma earliest_rejection_None:
  "earliest_rejection ps = None \<longleftrightarrow> (\<forall>t e. (t, Inl e) \<notin> set ps)"
proof (induction ps rule: earliest_rejection.induct)
  case 1
  show ?case by simp
next
  case (2 t v ps)
  then show ?case by auto
next
  case (3 t e ps)
  then show ?case by (auto split: option.splits)
qed

lemma earliest_rejection_Some:
  "earliest_rejection ps = Some (t, e) \<Longrightarrow>
     (t, Inl e) \<in> set ps \<and> (\<forall>t' e'. (t', Inl e') \<in> set ps \<longrightarrow> t \<le> t')"
proof (induction ps arbitrary: t e rule: earliest_rejection.induct)
  case 1
  then show ?case by simp
next
  case (2 t0 v ps)
  then show ?case by auto
next
  case (3 t0 e0 ps)
  show ?case
  proof (cases "earliest_rejection ps")
    case None
    with 3 show ?thesis by (auto simp: earliest_rejection_None)
  next
    case (Some te)
    obtain t1 e1 where te: "te = (t1, e1)" by (cases te)
    from "3.IH" [of t1 e1] Some te
    have ih: "(t1, Inl e1) \<in> set ps" "\<forall>t' e'. (t', Inl e') \<in> set ps \<longrightarrow> t1 \<le> t'" by auto
    from "3.prems" Some te ih show ?thesis
      by (auto split: if_splits)
  qed
qed

lemma erase_rejected [simp]: "erase p = (t, Inl e) \<longleftrightarrow> p = (t, Inl e)"
  by (cases p) (auto simp: erase_def split: sum.splits)

lemma rejected_erase [simp]: "(t, Inl e) = erase p \<longleftrightarrow> p = (t, Inl e)"
  using erase_rejected [of p t e] by (auto simp del: erase_rejected)

lemma rejected_in_erased [simp]: "(t, Inl e) \<in> erase ` S \<longleftrightarrow> (t, Inl e) \<in> S"
  by (auto simp: image_iff eq_commute [of "(t, Inl e)"])

lemma fulfilled_values_map:
  "\<forall>x \<in> set xs. snd (g x) = Inr (f x) \<Longrightarrow> fulfilled_values (map g xs) = map f xs"
proof (induction xs)
  case Nil
  show ?case by simp
next
  case (Cons x xs)
  then obtain t where "g x = (t, Inr (f x))" by (cases "g x") auto
  with Cons show ?case by simp
qed

lemma fold_concat: "fold (\<lambda>el accum. accum @ el) xss acc = acc @ concat xss"
  by (induction xss arbitrary: acc) simp_all

text \<open>\<open>rev (remdups (rev xs))\<close> keeps the first occurrence of every element of \<open>xs\<close>.\<close>

lemma first_occurrence_Cons:
  "rev (remdups (rev (x # xs))) = x # rev (remdups (rev (filter (\<lambda>y. y \<noteq> x) xs)))"
proof -
  have "remdups (ys @ [x]) = remdups (filter (\<lambda>y. y \<noteq> x) ys) @ [x]" for ys
    by (induction ys) auto
  from this [of "rev xs"] show ?thesis
    by (simp add: rev_filter)
qed

lemma js_set_fresh:
  "k \<notin> fst ` set obj \<Longrightarrow> k \<noteq> ''__proto__'' \<Longrightarrow> map fst (js_set obj k v) = map fst obj @ [k]"
  by (simp add: js_set_def AList.update_keys)

lemma js_set_proto:
  "''__proto__'' \<notin> fst ` set obj \<Longrightarrow> js_set obj ''__proto__'' v = obj"
  by (simp add: js_set_def)

lemma js_set_keys:
  "''__proto__'' \<notin> fst ` set obj \<Longrightarrow>
     fst ` set (js_set obj k v) = (if k = ''__proto__'' then fst ` set obj else insert k (fst ` set obj))"
  by (simp add: js_set_def AList.dom_update)

lemma js_set_distinct: "distinct (map fst obj) \<Longrightarrow> distinct (map fst (js_set obj k v))"
  by (simp add: js_set_def AList.distinct_update)

lemma js_set_lookup:
  "''__proto__'' \<notin> fst ` set obj \<Longrightarrow> k' \<noteq> ''__proto__'' \<Longrightarrow>
     map_of (js_set obj k v) k' = (if k = k' then Some v else map_of obj k')"
  by (simp add: js_set_def AList.update_conv')

text \<open>
  The loop over the keywords, for a catalog without an own property \<^verbatim>\<open>hasOwnProperty\<close>:
  it ends without error, and adds to \<open>depList\<close> the keywords that are catalog names
  other than \<^verbatim>\<open>__proto__\<close> and not yet listed, each once, in the order of their first
  occurrence.
\<close>

lemma forEach_kw_keys:
  assumes "''hasOwnProperty'' \<notin> fst ` set dockerKeywords"
    and "''hasOwnProperty'' \<notin> fst ` set depList"
    and "''__proto__'' \<notin> fst ` set depList"
  shows "\<exists>depList'. forEach_kw dockerKeywords kws depList = Inr depList'
           \<and> map fst depList' = map fst depList
               @ rev (remdups (rev (filter (\<lambda>k. k \<in> fst ` set dockerKeywords \<and> k \<noteq> ''__proto__''
                                                 \<and> k \<notin> fst ` set depList) kws)))"
  using assms
proof (induction kws arbitrary: depList)
  case Nil
  then show ?case by simp
next
  case (Cons kw kws)
  let ?P = "\<lambda>dl k. k \<in> fst ` set dockerKeywords \<and> k \<noteq> ''__proto__'' \<and> k \<notin> fst ` set dl"
  show ?case
  proof (cases "?P depList kw")
    case True
    let ?dl = "js_set depList kw True"
    have keys: "map fst ?dl = map fst depList @ [kw]"
      using True by (simp add: js_set_fresh)
    have set_keys: "fst ` set ?dl = insert kw (fst ` set depList)"
      using True Cons.prems by (simp add: js_set_keys)
    have hop: "''hasOwnProperty'' \<notin> fst ` set ?dl"
      using True Cons.prems by (auto simp: set_keys)
    have proto: "''__proto__'' \<notin> fst ` set ?dl"
      using True Cons.prems by (auto simp: set_keys)
    from Cons.IH [OF Cons.prems(1) hop proto]
    obtain dl' where run: "forEach_kw dockerKeywords kws ?dl = Inr dl'"
      and k: "map fst dl' = map fst ?dl @ rev (remdups (rev (filter (?P ?dl) kws)))"
      by blast
    have filt: "filter (?P ?dl) kws = filter (\<lambda>y. y \<noteq> kw) (filter (?P depList) kws)"
      by (auto simp: set_keys intro: filter_cong)
    have step: "forEach_kw dockerKeywords (kw # kws) depList = Inr dl'"
      using True Cons.prems run by (simp add: call_hasOwnProperty_def)
    have "map fst dl' = map fst depList
            @ rev (remdups (rev (filter (?P depList) (kw # kws))))"
      using True by (simp add: k keys filt first_occurrence_Cons del: remdups.simps rev.simps)
    with step show ?thesis by blast
  next
    case False
    have same: "forEach_kw dockerKeywords (kw # kws) depList = forEach_kw dockerKeywords kws depList"
      using False Cons.prems by (auto simp: call_hasOwnProperty_def js_set_proto)
    from Cons.IH [OF Cons.prems] False show ?thesis
      unfolding same by auto
  qed
qed

lemma fold_js_set_keys:
  "''__proto__'' \<notin> fst ` set acc \<Longrightarrow>
     fst ` set (fold (\<lambda>el dockers. js_set dockers (name el) (description el)) es acc)
       = (name ` set es - {''__proto__''}) \<union> fst ` set acc"
proof (induction es arbitrary: acc)
  case Nil
  show ?case by simp
next
  case (Cons el es)
  have "''__proto__'' \<notin> fst ` set (js_set acc (name el) (description el))"
    using Cons.prems by (simp add: js_set_keys)
  from Cons.IH [OF this] Cons.prems show ?case
    by (auto simp: js_set_keys)
qed

lemma fold_js_set_distinct:
  "distinct (map fst acc) \<Longrightarrow>
     distinct (map fst (fold (\<lambda>el dockers. js_set dockers (name el) (description el)) es acc))"
  by (induction es arbitrary: acc) (simp_all add: js_set_distinct)

lemma fold_js_set_lookup:
  "''__proto__'' \<notin> fst ` set acc \<Longrightarrow> k \<noteq> ''__proto__'' \<Longrightarrow>
     map_of (fold (\<lambda>el dockers. js_set dockers (name el) (description el)) es acc) k
       = (case map_of (rev (map (\<lambda>el. (name el, description el)) es)) k of
            Some v \<Rightarrow> Some v | None \<Rightarrow> map_of acc k)"
proof (induction es arbitrary: acc)
  case Nil
  show ?case by simp
next
  case (Cons el es)
  have "''__proto__'' \<notin> fst ` set (js_set acc (name el) (description el))"
    using Cons.prems by (simp add: js_set_keys)
  from Cons.IH [OF this Cons.prems(2)] Cons.prems show ?case
    by (simp add: js_set_lookup map_add_def split: option.splits)
qed

lemma err_toString_length: "length msg \<le> length (err_toString (JSError nm msg))"
  by (simp add: err_toString_def)

text \<open>The error that a \<^verbatim>\<open>catch\<close> of variant A throws is never the error it caught.\<close>

lemma rethrow_changes: "rethrow e \<noteq> e"
proof (cases e)
  case (JSError nm msg)
  have less: "length msg < length (ERR_URL_PARSE @ '' '' @ err_toString (JSError nm msg))"
    using err_toString_length [of msg nm] by simp
  show ?thesis
  proof
    assume "rethrow e = e"
    then have "ERR_URL_PARSE @ '' '' @ err_toString (JSError nm msg) = msg"
      by (simp add: rethrow_def JSError)
    then have "length (ERR_URL_PARSE @ '' '' @ err_toString (JSError nm msg)) = length msg"
      by (rule arg_cong)
    with less show False by simp
  qed
qed

section \<open>Properties of the page scraper\<close>

lemma line_terminator_is_space: "is_line_terminator c \<Longrightarrow> is_space c"
  by (auto simp: is_line_terminator_def is_space_def)

lemma rx_match_spaces_only:
  "list_all is_space ws \<Longrightarrow> rx_match [Many is_space] ws = Some ([], [])"
  by (induction ws) simp_all

lemma rx_match_skip_spaces:
  assumes "list_all is_space ws" and "rx_match r (c # s) = Some m" and "\<not> is_space c"
  shows "rx_match (Many is_space # r) (ws @ c # s) = Some m"
  using assms by (induction ws) simp_all

lemma rx_match_tail_fails:
  "list_all is_space ws \<Longrightarrow>
     rx_match [Many (\<lambda>c. \<not> is_line_terminator c), One (\<lambda>c. \<not> is_space c), Mark, Many is_space] ws = None"
  by (induction ws) simp_all

lemma rx_match_last_word_character:
  assumes "list_all (\<lambda>c. \<not> is_line_terminator c) mid" and "\<not> is_space c2" and "list_all is_space ws2"
  shows "rx_match [Many (\<lambda>c. \<not> is_line_terminator c), One (\<lambda>c. \<not> is_space c), Mark, Many is_space]
           (mid @ c2 # ws2) = Some ([ws2], [])"
  using assms
proof (induction mid)
  case Nil
  then have "\<not> is_line_terminator c2"
    using line_terminator_is_space by blast
  with Nil show ?case
    by (simp add: rx_match_tail_fails rx_match_spaces_only)
next
  case (Cons m mid)
  then show ?case by simp
qed

text \<open>
  A token whose text, between leading and trailing white space, starts and ends with a
  character that is not white space and has no line terminator in between is replaced by
  that text.
\<close>

lemma replace_g_trims:
  assumes "list_all is_space ws1" and "\<not> is_space c1"
    and "list_all (\<lambda>c. \<not> is_line_terminator c) mid" and "\<not> is_space c2"
    and "list_all is_space ws2"
  shows "replace_g trim_rx (ws1 @ c1 # mid @ c2 # ws2) = c1 # mid @ [c2]"
proof -
  let ?s = "c1 # mid @ c2 # ws2"
  have inner: "rx_match [Mark, One (\<lambda>c. \<not> is_space c), Many (\<lambda>c. \<not> is_line_terminator c),
                         One (\<lambda>c. \<not> is_space c), Mark, Many is_space] ?s
                 = Some ([?s, ws2], [])"
    using assms by (simp add: rx_match_last_word_character)
  have m: "rx_match trim_rx (ws1 @ ?s) = Some ([?s, ws2], [])"
    unfolding trim_rx_def using assms(1) inner assms(2) by (rule rx_match_skip_spaces)
  have e: "rx_match trim_rx [] = None"
    by (simp add: trim_rx_def)
  have "replace_g trim_rx (ws1 @ ?s) = capture1 [?s, ws2] @ replace_g trim_rx []"
    by (subst replace_g.simps) (simp add: m)
  also have "replace_g trim_rx [] = []"
    by (subst replace_g.simps) (simp add: e)
  finally show ?thesis
    by (simp add: capture1_def)
qed

text \<open>
  A match of \<open>trim_rx\<close> needs two characters that are not white space; a token with at
  most one is returned as it is.
\<close>

lemma rx_match_needs_characters:
  assumes "rx_match r s = Some m"
    and "list_all (\<lambda>a. case a of One p \<Rightarrow> p = (\<lambda>c. \<not> is_space c) | _ \<Rightarrow> True) r"
  shows "length (filter (\<lambda>a. case a of One p \<Rightarrow> True | _ \<Rightarrow> False) r)
           \<le> length (filter (\<lambda>c. \<not> is_space c) s)"
  using assms
proof (induction r s arbitrary: m rule: rx_match.induct)
  case (1 s)
  show ?case by simp
next
  case (2 r s)
  then show ?case by auto
next
  case (3 p r)
  then show ?case by simp
next
  case (4 p r c cs)
  then show ?case by (auto split: if_splits)
next
  case (5 p r)
  then show ?case by simp
next
  case (6 p r c cs)
  show ?case
  proof (cases "p c")
    case True
    show ?thesis
    proof (cases "rx_match (Many p # r) cs")
      case None
      with 6 True show ?thesis by simp
    next
      case (Some m')
      with "6.IH"(1) [OF True Some] "6.prems" True have
        "length (filter (\<lambda>a. case a of One p \<Rightarrow> True | _ \<Rightarrow> False) (Many p # r))
           \<le> length (filter (\<lambda>c. \<not> is_space c) cs)"
        by simp
      then show ?thesis by simp
    qed
  next
    case False
    with 6 show ?thesis by simp
  qed
qed

lemma trim_rx_no_match:
  "length (filter (\<lambda>c. \<not> is_space c) s) \<le> 1 \<Longrightarrow> rx_match trim_rx s = None"
proof (rule ccontr)
  assume few: "length (filter (\<lambda>c. \<not> is_space c) s) \<le> 1" and "rx_match trim_rx s \<noteq> None"
  then obtain m where "rx_match trim_rx s = Some m" by auto
  from rx_match_needs_characters [OF this]
  have "2 \<le> length (filter (\<lambda>c. \<not> is_space c) s)"
    by (simp add: trim_rx_def)
  with few show False by simp
qed

lemma replace_g_unchanged:
  "length (filter (\<lambda>c. \<not> is_space c) s) \<le> 1 \<Longrightarrow> replace_g trim_rx s = s"
proof (induction s)
  case Nil
  then show ?case
    by (subst replace_g.simps) (simp add: trim_rx_no_match)
next
  case (Cons c cs)
  then have tl: "length (filter (\<lambda>c. \<not> is_space c) cs) \<le> 1"
    by (simp split: if_splits)
  have "replace_g trim_rx (c # cs) = c # replace_g trim_rx cs"
    by (subst replace_g.simps) (simp add: trim_rx_no_match [OF Cons.prems])
  with Cons.IH [OF tl] show ?case by simp
qed

text \<open>
  Claim C5: the scraper splits the paragraph's text on commas and trims every token,
  collapsing no inner white space. The expression \<^verbatim>\<open>/\s*(\S.*\S)\s*/g\<close> needs two
  characters that are not white space on one line to match: a token of one such
  character (\<^verbatim>\<open>" c"\<close>) and a token of white space only are returned unchanged, and
  white space around a line break between two words is removed. On the fixture text the
  result is the eight trimmed tokens.
\<close>

theorem parseDependencies_untrimmed_tokens:
  "parseDependencies (w\<lparr>cheerio_select := \<lambda>h. [''q, c'']\<rparr>) html = [''q'', '' c'']
   \<and> parseDependencies (w\<lparr>cheerio_select := \<lambda>h. [''orm,  ,sql'']\<rparr>) html = [''orm'', ''  '', ''sql'']
   \<and> parseDependencies (w\<lparr>cheerio_select := \<lambda>h. [''ab'' @ [CHR 0x0A] @ '' cd'']\<rparr>) html = [''abcd'']
   \<and> parseDependencies
         (w\<lparr>cheerio_select := \<lambda>h.
            [''object relational mapper, nodejs, orm, mssql, postgres, postgresql, sqlite, mysql'']\<rparr>) html
       = [''object relational mapper'', ''nodejs'', ''orm'', ''mssql'', ''postgres'', ''postgresql'',
          ''sqlite'', ''mysql'']"
  by (simp add: parseDependencies_def split_trim_def trim_rx_def is_space_def
      is_line_terminator_def capture1_def)

text \<open>
  Claim C9: when the page has no element for the selector, the scraper returns an empty
  sequence or a sequence of one empty string, and raises no error. \<open>parseDependencies\<close>
  has no error result; with nothing selected \<^verbatim>\<open>.text()\<close> is the empty string and the
  result is \<^verbatim>\<open>['']\<close>, the second of the two.
\<close>

theorem parseDependencies_absent_node:
  "cheerio_select w html = [] \<Longrightarrow>
     (parseDependencies w html = [] \<or> parseDependencies w html = [''''])
     \<and> parseDependencies w html = ['''']"
  by (simp add: parseDependencies_def split_trim_def trim_rx_def)

text \<open>The same on a page of the example world that has no such element.\<close>

theorem parseDependencies_absent_node_witness:
  "cheerio_select fixture_world ''<html></html>'' = []
   \<and> parseDependencies fixture_world ''<html></html>'' = ['''']"
  using parseDependencies_absent_node [of fixture_world "''<html></html>''"]
  by (simp add: fixture_world_def)

section \<open>Properties of the matcher\<close>

text \<open>
  Claim C6: for a manifest that parses but has no \<^verbatim>\<open>devDependencies\<close> key,
  \<^verbatim>\<open>matchDependencies\<close> (variant B) fails with the error of the parse stage before any
  fetch is started: \<^verbatim>\<open>dependencies\<close> throws a \<^verbatim>\<open>TypeError\<close>, the promise is rejected with
  it, and the list of fetches started is empty. This holds whatever \<^verbatim>\<open>fetchDockers\<close> and
  \<^verbatim>\<open>fetchNPM\<close> are.
\<close>

theorem matchDependencies_B_missing_devDependencies:
  assumes "readFileSync w path = Inr content" and "JSON_parse w content = Inr pj"
    and "\<not> has_member pj ''devDependencies''"
  shows "\<exists>msg. dependencies w path = Inl (JSError ''TypeError'' msg)
           \<and> matchDependencies_B (this\<lparr>this_dependencies := dependencies w\<rparr>) path
               = ([], Inl (JSError ''TypeError'' msg))"
proof -
  from dependencies_missing_devDependencies [OF assms]
  obtain msg where "dependencies w path = Inl (JSError ''TypeError'' msg)" ..
  then show ?thesis by (simp add: matchDependencies_B_def)
qed

text \<open>
  The same for the exported object, on a manifest that declares \<^verbatim>\<open>redis\<close> under
  \<^verbatim>\<open>dependencies\<close> and nothing else.
\<close>

theorem matchDependencies_B_missing_devDependencies_witness:
  "readFileSync (fixture_world\<lparr>JSON_parse := \<lambda>s. Inr manifest_without_devDependencies\<rparr>)
       ''package.json'' = Inr ''(manifest text)''
   \<and> \<not> has_member manifest_without_devDependencies ''devDependencies''
   \<and> (\<exists>msg. matchDependencies_B
         (packageParser_B (fixture_world\<lparr>JSON_parse := \<lambda>s. Inr manifest_without_devDependencies\<rparr>))
         ''package.json'' = ([], Inl (JSError ''TypeError'' msg)))"
proof -
  let ?w = "fixture_world\<lparr>JSON_parse := \<lambda>s. Inr manifest_without_devDependencies\<rparr>"
  have rd: "readFileSync ?w ''package.json'' = Inr ''(manifest text)''"
    by (simp add: fixture_world_def)
  have parsed: "JSON_parse ?w ''(manifest text)'' = Inr manifest_without_devDependencies"
    by simp
  have lacks: "\<not> has_member manifest_without_devDependencies ''devDependencies''"
    by (simp add: has_member_def manifest_without_devDependencies_def)
  have same: "(packageParser_B ?w)\<lparr>this_dependencies := dependencies ?w\<rparr> = packageParser_B ?w"
    by (simp add: packageParser_B_def)
  from matchDependencies_B_missing_devDependencies [OF rd parsed lacks, of "packageParser_B ?w"]
  have "\<exists>msg. matchDependencies_B (packageParser_B ?w) ''package.json''
                = ([], Inl (JSError ''TypeError'' msg))"
    unfolding same by blast
  with rd lacks show ?thesis by blast
qed


section \<open>Properties of the URL builder\<close>

text \<open>
  Claim C10: \<open>depURL\<close> is injective. Two distinct package names give distinct URLs, and
  the name is what follows the fixed prefix \<^verbatim>\<open>https://www.npmjs.com/package/\<close> in the URL.
\<close>

theorem depURL_injective:
  "(a \<noteq> b \<longrightarrow> depURL a \<noteq> depURL b)
   \<and> take (length ''https://www.npmjs.com/package/'') (depURL a) = ''https://www.npmjs.com/package/''
   \<and> drop (length ''https://www.npmjs.com/package/'') (depURL a) = a"
  by (simp add: depURL_def)

text \<open>The same at the names \<^verbatim>\<open>express\<close> and \<^verbatim>\<open>redis\<close>.\<close>

theorem depURL_injective_witness:
  "''express'' \<noteq> ''redis''
   \<and> depURL ''express'' \<noteq> depURL ''redis''
   \<and> depURL ''express'' = ''https://www.npmjs.com/package/express''
   \<and> drop (length ''https://www.npmjs.com/package/'') (depURL ''express'') = ''express''"
  using depURL_injective [of "''express''" "''redis''"]
  by (simp add: depURL_def)

section \<open>Properties of the manifest reader\<close>

text \<open>
  Claim C4, as amended: for a manifest with a \<^verbatim>\<open>dependencies\<close> mapping and a
  \<^verbatim>\<open>devDependencies\<close> mapping, \<^verbatim>\<open>dependencies(path)\<close> returns the keys of the first
  followed by the keys of the second, nothing removed and nothing added, each mapping's
  keys in the order of \<^verbatim>\<open>Object.keys\<close>: the keys that are array indices first, in
  ascending numeric order, then the other keys in insertion order. When no key is an
  array index this is the insertion order of the parser.
\<close>

theorem dependencies_key_order:
  assumes "readFileSync w path = Inr content" and "JSON_parse w content = Inr pj"
    and "get_member pj ''dependencies'' = Inr (Some (JObj d))"
    and "get_member pj ''devDependencies'' = Inr (Some (JObj dd))"
  shows "dependencies w path = Inr (own_keys (create_object d) @ own_keys (create_object dd))
    \<and> mset (own_keys (create_object d) @ own_keys (create_object dd))
        = mset (map fst (create_object d) @ map fst (create_object dd))
    \<and> (list_all (\<lambda>k. \<not> is_array_index k) (map fst (create_object d) @ map fst (create_object dd))
        \<longrightarrow> dependencies w path = Inr (map fst (create_object d) @ map fst (create_object dd)))"
proof -
  have run: "dependencies w path = Inr (own_keys (create_object d) @ own_keys (create_object dd))"
    using assms by (simp add: dependencies_def Object_keys_def)
  show ?thesis
    by (simp add: run mset_own_keys own_keys_no_index)
qed

text \<open>The same on the manifest of the example world, which declares \<^verbatim>\<open>redis\<close> and \<^verbatim>\<open>mocha\<close>.\<close>

theorem dependencies_key_order_witness:
  "readFileSync fixture_world ''package.json'' = Inr ''(manifest text)''
   \<and> get_member (JObj [(''dependencies'', JObj [(''redis'', JStr ''2.6.0'')]),
                       (''devDependencies'', JObj [(''mocha'', JStr ''2.4.5'')])]) ''dependencies''
       = Inr (Some (JObj [(''redis'', JStr ''2.6.0'')]))
   \<and> list_all (\<lambda>k. \<not> is_array_index k) [''redis'', ''mocha'']
   \<and> dependencies fixture_world ''package.json'' = Inr [''redis'', ''mocha'']"
proof -
  have rd: "readFileSync fixture_world ''package.json'' = Inr ''(manifest text)''"
    by (simp add: fixture_world_def)
  have parsed: "JSON_parse fixture_world ''(manifest text)''
      = Inr (JObj [(''dependencies'', JObj [(''redis'', JStr ''2.6.0'')]),
                   (''devDependencies'', JObj [(''mocha'', JStr ''2.4.5'')])])"
    by (simp add: fixture_world_def)
  have deps: "get_member (JObj [(''dependencies'', JObj [(''redis'', JStr ''2.6.0'')]),
                                (''devDependencies'', JObj [(''mocha'', JStr ''2.4.5'')])]) ''dependencies''
      = Inr (Some (JObj [(''redis'', JStr ''2.6.0'')]))"
    by (simp add: get_member_def create_object_def)
  have dev: "get_member (JObj [(''dependencies'', JObj [(''redis'', JStr ''2.6.0'')]),
                               (''devDependencies'', JObj [(''mocha'', JStr ''2.4.5'')])]) ''devDependencies''
      = Inr (Some (JObj [(''mocha'', JStr ''2.4.5'')]))"
    by (simp add: get_member_def create_object_def)
  have noidx: "list_all (\<lambda>k. \<not> is_array_index k) [''redis'', ''mocha'']"
    by (simp add: is_array_index_def is_digit_def)
  from dependencies_key_order [OF rd parsed deps dev]
  have "list_all (\<lambda>k. \<not> is_array_index k)
          (map fst (create_object [(''redis'', JStr ''2.6.0'')])
            @ map fst (create_object [(''mocha'', JStr ''2.4.5'')]))
        \<longrightarrow> dependencies fixture_world ''package.json''
          = Inr (map fst (create_object [(''redis'', JStr ''2.6.0'')])
                  @ map fst (create_object [(''mocha'', JStr ''2.4.5'')]))"
    by blast
  with noidx have "dependencies fixture_world ''package.json'' = Inr [''redis'', ''mocha'']"
    by (simp add: create_object_def)
  with rd deps noidx show ?thesis by blast
qed

text \<open>
  Claim C4, as stated, fails on a manifest whose \<^verbatim>\<open>dependencies\<close> declare \<^verbatim>\<open>q\<close> and then
  \<^verbatim>\<open>7\<close>: the result starts with \<^verbatim>\<open>7\<close>, not with the keys in insertion order.
\<close>

theorem dependencies_insertion_order_counterexample:
  "dependencies (fixture_world\<lparr>JSON_parse := \<lambda>s. Inr manifest_with_index_key\<rparr>) ''package.json''
     = Inr [''7'', ''q'', ''mocha'']
   \<and> dependencies (fixture_world\<lparr>JSON_parse := \<lambda>s. Inr manifest_with_index_key\<rparr>) ''package.json''
     \<noteq> Inr (map fst [(''q'', JStr ''1.4.1''), (''7'', JStr ''1.0.0'')]
              @ map fst [(''mocha'', JStr ''2.4.5'')])"
  by (simp add: dependencies_def fixture_world_def manifest_with_index_key_def get_member_def
      create_object_def Object_keys_def own_keys_def is_array_index_def is_digit_def index_value_def)


section \<open>Properties of the concurrent batch\<close>

text \<open>
  What \<^verbatim>\<open>matchDependencies\<close> (variant B) does when a registry fetch or the catalog fetch of
  the batch fails: it fails, with no partial result, and its error is the rejection
  reason of the fetch that failed first, as it is. \<open>batch\<close> is the batch with the values
  forgotten. The reason with which \<^verbatim>\<open>fetchNPM\<close> is rejected is the one of \<^verbatim>\<open>request\<close>, and
  the reason with which \<^verbatim>\<open>fetchDockers\<close> is rejected is the one of \<^verbatim>\<open>request\<close> or the error
  of the catalog parse.
\<close>

lemma matchDependencies_B_fetch_failure:
  assumes deps: "this_dependencies this path = Inr deps"
    and batch: "batch = erase (this_fetchDockers this None)
                  # map (\<lambda>pkg. erase (this_fetchNPM this (this_depURL this pkg))) deps"
    and fail: "(t0, Inl e0) \<in> set batch"
  shows "(\<exists>t e. (t, Inl e) \<in> set batch \<and> (\<forall>t' e'. (t', Inl e') \<in> set batch \<longrightarrow> t \<le> t')
           \<and> matchDependencies_B this path
               = (FetchDockers None # map (\<lambda>pkg. FetchNPM (this_depURL this pkg)) deps, Inl e))
         \<and> (fetchNPM_B w url = (tr, Inl er) \<longleftrightarrow> request w url = (tr, Inl er))
         \<and> (fetchDockers_B w None = (tr, Inl er) \<longleftrightarrow>
              request w ''https://hub.docker.com/v2/repositories/library/?page_size=999'' = (tr, Inl er)
              \<or> (\<exists>body. request w ''https://hub.docker.com/v2/repositories/library/?page_size=999''
                           = (tr, Inr body)
                         \<and> parseDockers w body = Inl er))"
proof -
  have b: "batch = erase (this_fetchDockers this None)
             # map erase (map (this_fetchNPM this) (map (this_depURL this) deps))"
    by (simp add: batch comp_def)
  from fail have "earliest_rejection batch \<noteq> None"
    by (auto simp: earliest_rejection_None)
  then obtain t e where te: "earliest_rejection batch = Some (t, e)" by auto
  from earliest_rejection_Some [OF te]
  have first: "(t, Inl e) \<in> set batch" "\<forall>t' e'. (t', Inl e') \<in> set batch \<longrightarrow> t \<le> t'" by auto
  have "matchDependencies_B this path
          = (FetchDockers None # map (\<lambda>pkg. FetchNPM (this_depURL this pkg)) deps, Inl e)"
    using te unfolding b
    by (simp add: matchDependencies_B_def deps Let_def Promise_all_shift_def comp_def)
  with first have main: "\<exists>t e. (t, Inl e) \<in> set batch
      \<and> (\<forall>t' e'. (t', Inl e') \<in> set batch \<longrightarrow> t \<le> t')
      \<and> matchDependencies_B this path
          = (FetchDockers None # map (\<lambda>pkg. FetchNPM (this_depURL this pkg)) deps, Inl e)"
    by blast
  have npm: "fetchNPM_B w url = (tr, Inl er) \<longleftrightarrow> request w url = (tr, Inl er)"
    by (cases "request w url") (auto simp: fetchNPM_B_def split: sum.splits)
  have docker: "fetchDockers_B w None = (tr, Inl er) \<longleftrightarrow>
       request w ''https://hub.docker.com/v2/repositories/library/?page_size=999'' = (tr, Inl er)
       \<or> (\<exists>body. request w ''https://hub.docker.com/v2/repositories/library/?page_size=999''
                    = (tr, Inr body)
                  \<and> parseDockers w body = Inl er)"
    by (cases "request w ''https://hub.docker.com/v2/repositories/library/?page_size=999''")
       (auto simp: fetchDockers_B_def split: sum.splits)
  from main npm docker show ?thesis by blast
qed

text \<open>
  The same in the example world, where the page of \<^verbatim>\<open>mocha\<close> is answered with status 404
  at tick 1, before the catalog arrives.
\<close>

lemma matchDependencies_B_fetch_failure_example:
  "this_dependencies (packageParser_B fixture_world) ''package.json'' = Inr [''redis'', ''mocha'']
   \<and> (1, Inl (JSError ''StatusCodeError'' ''404 - Not Found''))
       \<in> set (erase (this_fetchDockers (packageParser_B fixture_world) None)
               # map (\<lambda>pkg. erase (this_fetchNPM (packageParser_B fixture_world)
                                     (this_depURL (packageParser_B fixture_world) pkg)))
                   [''redis'', ''mocha''])
   \<and> matchDependencies_B (packageParser_B fixture_world) ''package.json''
       = ([FetchDockers None, FetchNPM ''https://www.npmjs.com/package/redis'',
           FetchNPM ''https://www.npmjs.com/package/mocha''],
          Inl (JSError ''StatusCodeError'' ''404 - Not Found''))"
proof -
  let ?p = "packageParser_B fixture_world"
  let ?batch = "erase (this_fetchDockers ?p None)
                  # map (\<lambda>pkg. erase (this_fetchNPM ?p (this_depURL ?p pkg))) [''redis'', ''mocha'']"
  have deps: "this_dependencies ?p ''package.json'' = Inr [''redis'', ''mocha'']"
    by (simp add: packageParser_B_def dependencies_def fixture_world_def get_member_def
        create_object_def Object_keys_def own_keys_def is_array_index_def is_digit_def)
  have batch: "?batch = [(2, Inr ()), (1, Inr ()), (1, Inl (JSError ''StatusCodeError'' ''404 - Not Found''))]"
    by (simp add: packageParser_B_def fetchDockers_B_def fetchNPM_B_def parseDockers_def
        fixture_world_def depURL_def erase_def)
  have fail: "(1, Inl (JSError ''StatusCodeError'' ''404 - Not Found'')) \<in> set ?batch"
    unfolding batch by simp
  from matchDependencies_B_fetch_failure [OF deps refl fail]
  obtain t e where "(t, Inl e) \<in> set ?batch"
    and "matchDependencies_B ?p ''package.json''
          = (FetchDockers None # map (\<lambda>pkg. FetchNPM (this_depURL ?p pkg)) [''redis'', ''mocha''], Inl e)"
    by blast
  then have "matchDependencies_B ?p ''package.json''
       = ([FetchDockers None, FetchNPM ''https://www.npmjs.com/package/redis'',
           FetchNPM ''https://www.npmjs.com/package/mocha''],
          Inl (JSError ''StatusCodeError'' ''404 - Not Found''))"
    unfolding batch by (simp add: packageParser_B_def depURL_def)
  with deps fail show ?thesis by blast
qed

text \<open>
  Claim C7: if a registry fetch or the catalog fetch of the batch fails, the whole
  operation fails with that error, with no partial result, and the error surfaced wraps
  the underlying one with added context. Variant B fails with the error of the first
  failure but adds no context to it: in the example world, where the page of \<^verbatim>\<open>mocha\<close> is
  answered with status 404, the error that \<^verbatim>\<open>matchDependencies\<close> surfaces is the error of
  the failed request itself. It is not that error rethrown as the \<^verbatim>\<open>catch\<close> clauses of
  variant A do, and its message is not any context followed by the text of the request's
  error.
\<close>

theorem matchDependencies_B_surfaces_bare_error:
  "request fixture_world (depURL ''mocha'') = (1, Inl (JSError ''StatusCodeError'' ''404 - Not Found''))
   \<and> snd (matchDependencies_B (packageParser_B fixture_world) ''package.json'')
       = Inl (JSError ''StatusCodeError'' ''404 - Not Found'')
   \<and> snd (matchDependencies_B (packageParser_B fixture_world) ''package.json'')
       \<noteq> Inl (rethrow (JSError ''StatusCodeError'' ''404 - Not Found''))
   \<and> \<not> (\<exists>nm ctx. snd (matchDependencies_B (packageParser_B fixture_world) ''package.json'')
                    = Inl (JSError nm (ctx @ err_toString (JSError ''StatusCodeError'' ''404 - Not Found''))))"
proof -
  have run: "snd (matchDependencies_B (packageParser_B fixture_world) ''package.json'')
       = Inl (JSError ''StatusCodeError'' ''404 - Not Found'')"
    by (simp add: matchDependencies_B_def packageParser_B_def dependencies_def fixture_world_def
        get_member_def create_object_def Object_keys_def own_keys_def is_array_index_def is_digit_def
        fetchDockers_B_def fetchNPM_B_def parseDockers_def depURL_def Promise_all_shift_def erase_def)
  have req: "request fixture_world (depURL ''mocha'')
       = (1, Inl (JSError ''StatusCodeError'' ''404 - Not Found''))"
    by (simp add: fixture_world_def depURL_def)
  have longer: "''404 - Not Found'' \<noteq> ctx @ err_toString (JSError ''StatusCodeError'' ''404 - Not Found'')"
    for ctx
  proof
    assume "''404 - Not Found'' = ctx @ err_toString (JSError ''StatusCodeError'' ''404 - Not Found'')"
    then have "length ''404 - Not Found''
                 = length (ctx @ err_toString (JSError ''StatusCodeError'' ''404 - Not Found''))"
      by (rule arg_cong)
    then show False by (simp add: err_toString_def)
  qed
  show ?thesis
    using rethrow_changes [of "JSError ''StatusCodeError'' ''404 - Not Found''"] longer
    by (simp add: run req)
qed


section \<open>Properties of the match\<close>

text \<open>
  What \<^verbatim>\<open>matchDependencies\<close> (variant B) returns when the manifest is read, every fetch
  succeeds and the catalog has no own property \<^verbatim>\<open>hasOwnProperty\<close>: the keys of \<open>depList\<close>
  in the order of \<^verbatim>\<open>Object.keys\<close>, where \<open>depList\<close> holds, each once and in the order of
  their first occurrence, the keywords that are catalog names other than \<^verbatim>\<open>__proto__\<close>.
\<close>

lemma matchDependencies_B_matches:
  assumes deps: "this_dependencies this path = Inr deps"
    and cat: "snd (this_fetchDockers this None) = Inr catalog"
    and pages: "\<forall>pkg \<in> set deps. snd (this_fetchNPM this (this_depURL this pkg)) = Inr (kws pkg)"
    and hop: "''hasOwnProperty'' \<notin> fst ` set catalog"
  shows "\<exists>depList :: (string \<times> bool) list.
           snd (matchDependencies_B this path) = Inr (own_keys depList)
           \<and> map fst depList
               = rev (remdups (rev (filter (\<lambda>k. k \<in> fst ` set catalog \<and> k \<noteq> ''__proto__'')
                                      (concat (map kws deps)))))
           \<and> set (own_keys depList)
               = (set (concat (map kws deps)) \<inter> fst ` set catalog) - {''__proto__''}
           \<and> distinct (own_keys depList)"
proof -
  let ?ps = "map (this_fetchNPM this) (map (this_depURL this) deps)"
  let ?all = "concat (map kws deps)"
  have vals: "fulfilled_values ?ps = map kws deps"
    using pages fulfilled_values_map [of deps "\<lambda>pkg. this_fetchNPM this (this_depURL this pkg)" kws]
    by (simp add: comp_def)
  have no_rej: "earliest_rejection (erase (this_fetchDockers this None) # map erase ?ps) = None"
    unfolding earliest_rejection_None
  proof (intro allI notI)
    fix t e
    assume "(t, Inl e) \<in> set (erase (this_fetchDockers this None) # map erase ?ps)"
    then consider "this_fetchDockers this None = (t, Inl e)"
      | pkg where "pkg \<in> set deps" "this_fetchNPM this (this_depURL this pkg) = (t, Inl e)"
      by auto
    then show False
    proof cases
      case 1
      with cat show False by simp
    next
      case 2
      with pages show False by auto
    qed
  qed
  have shift: "Promise_all_shift (this_fetchDockers this None) ?ps = Inr (catalog, map kws deps)"
    unfolding Promise_all_shift_def no_rej vals cat by simp
  from forEach_kw_keys [of catalog "[]" ?all] hop
  obtain depList where run: "forEach_kw catalog ?all [] = Inr depList"
    and keys: "map fst depList
                 = rev (remdups (rev (filter (\<lambda>k. k \<in> fst ` set catalog \<and> k \<noteq> ''__proto__'') ?all)))"
    by auto
  have res: "snd (matchDependencies_B this path) = Inr (own_keys depList)"
    unfolding matchDependencies_B_def deps sum.case Let_def shift prod.case fold_concat append_Nil run
    by simp
  have "set (map fst depList) = (set ?all \<inter> fst ` set catalog) - {''__proto__''}"
    unfolding keys by auto
  then have s: "set (own_keys depList) = (set ?all \<inter> fst ` set catalog) - {''__proto__''}"
    by (simp add: set_own_keys)
  have "distinct (map fst depList)"
    unfolding keys by simp
  then have d: "distinct (own_keys depList)"
    by (simp add: distinct_own_keys)
  from res keys s d show ?thesis by blast
qed

text \<open>
  Claim C1: for every stubbed dependency list, catalog and keyword lists,
  \<^verbatim>\<open>matchDependencies\<close> returns exactly the keywords that are both scraped and catalog
  names, each once. Variant B does not for a catalog with an image named
  \<^verbatim>\<open>hasOwnProperty\<close>: the own property shadows the method that the loop calls on the
  catalog, and the call is rejected with a \<^verbatim>\<open>TypeError\<close>, although \<^verbatim>\<open>redis\<close> is a keyword
  and a catalog name. Nor does it for the keyword \<^verbatim>\<open>__proto__\<close> that is a catalog name:
  \<^verbatim>\<open>depList['__proto__'] = true\<close> stores nothing, and the result leaves the keyword out.
\<close>

theorem matchDependencies_B_shadowed_hasOwnProperty:
  "matchDependencies_B
     (stub_parser [''redis''] [(''hasOwnProperty'', ''An image.''), (''redis'', ''Redis'')]
        [''redis'', ''cache''])
     ''package.json''
     = ([FetchDockers None, FetchNPM ''https://www.npmjs.com/package/redis''],
        Inl (JSError ''TypeError'' ''dockerKeywords.hasOwnProperty is not a function''))
   \<and> matchDependencies_B
       (stub_parser [''redis''] [(''__proto__'', ''An image.''), (''redis'', ''Redis'')]
          [''__proto__'', ''redis''])
       ''package.json''
     = ([FetchDockers None, FetchNPM ''https://www.npmjs.com/package/redis''], Inr [''redis''])"
  by (simp add: matchDependencies_B_def stub_parser_def depURL_def Promise_all_shift_def erase_def
      call_hasOwnProperty_def js_set_def own_keys_def is_array_index_def is_digit_def)

text \<open>
  Claim C3: the two variants disagree on the shape of the result, one returning an array
  of names and the other a mapping from name to \<^verbatim>\<open>true\<close>. The comment of variant B and the
  test promise the mapping, but both variants end in \<^verbatim>\<open>Object.keys(depList)\<close>: with the
  stubs of the test suite variant B resolves to the array of the keys of
  \<^verbatim>\<open>{redis: true}\<close>, and variant A is rejected.
\<close>

theorem matchDependencies_B_returns_array:
  "snd (matchDependencies_B (stub_parser [''redis''] [(''redis'', ''Redis'')] [''redis'', ''cache''])
          ''package.json'')
     = Inr (own_keys [(''redis'', True)])
   \<and> own_keys [(''redis'', True)] = [''redis'']
   \<and> (\<exists>err. snd (matchDependencies_A ''package.json'') = Inl err)"
  by (simp add: matchDependencies_B_def matchDependencies_A_def stub_parser_def depURL_def
      Promise_all_shift_def erase_def
      call_hasOwnProperty_def js_set_def own_keys_def is_array_index_def is_digit_def)

section \<open>Properties of the catalog parse\<close>

text \<open>
  What \<^verbatim>\<open>parseDockers\<close> returns for a body that parses: no error, a mapping whose keys
  are the names of the entries other than \<^verbatim>\<open>__proto__\<close>, each once, and for each such
  name the description of the last entry of that name.
\<close>

lemma parseDockers_last_write_wins:
  assumes "JSON_parse_docker w body = Inr dj"
  shows "\<exists>dockers. parseDockers w body = Inr dockers
           \<and> fst ` set dockers = name ` set (results dj) - {''__proto__''}
           \<and> distinct (map fst dockers)
           \<and> (\<forall>k. k \<noteq> ''__proto__'' \<longrightarrow>
                 map_of dockers k = map_of (rev (map (\<lambda>el. (name el, description el)) (results dj))) k)"
  using fold_js_set_keys [of "[]" "results dj"] fold_js_set_distinct [of "[]" "results dj"]
    fold_js_set_lookup [of "[]" _ "results dj"]
  by (simp add: parseDockers_def assms split: option.splits)

text \<open>
  Claim C8: of two entries with one name the later description is kept and no error is
  raised, and the keys of the mapping are exactly the names that occur in the results.
  The code does not keep the name \<^verbatim>\<open>__proto__\<close>: \<^verbatim>\<open>dockers['__proto__'] = description\<close>
  stores nothing, so for a catalog of the images \<^verbatim>\<open>__proto__\<close> and \<^verbatim>\<open>nginx\<close> the mapping has
  the one key \<^verbatim>\<open>nginx\<close>.
\<close>

theorem parseDockers_drops_proto:
  "parseDockers (fixture_world\<lparr>JSON_parse_docker := \<lambda>s. Inr catalog_with_proto\<rparr>) ''(catalog text)''
     = Inr [(''nginx'', ''Official build of Nginx.'')]
   \<and> name ` set (results catalog_with_proto) = {''__proto__'', ''nginx''}"
  by (simp add: parseDockers_def catalog_with_proto_def js_set_def)


end
